theory Spec2Isabelle
  imports Complex_Main
begin

section \<open>math3.js: 3D vectors and 3x3 matrices\<close>

text \<open>
  The library works on JavaScript Numbers. Here a Number is a mathematical real:
  \<open>+\<close>, \<open>-\<close>, \<open>*\<close> are the exact operations, \<open>Math.sqrt\<close>, \<open>Math.sin\<close> and
  \<open>Math.cos\<close> are \<^const>\<open>sqrt\<close>, \<^const>\<open>sin\<close> and \<^const>\<open>cos\<close>, and \<open>==\<close> between
  Numbers is equality. Rounding, overflow, signed zeros and NaN inputs are outside this
  model, so every theorem below is the exact-arithmetic reading of its property.

  The only division of the embedded functions is the one in \<open>m3x3_inv\<close>, behind the
  test \<open>det == 0.0\<close>, so no embedded function divides by zero.
\<close>

subsection \<open>Vectors\<close>

text \<open>The object \<open>{x, y, z}\<close> built by \<open>v3\<close> (lines 18-25).\<close>

record v3 =
  x :: real
  y :: real
  z :: real

text \<open>\<open>Number(n)\<close> is the identity on a Number.\<close>

definition v3 :: "real \<Rightarrow> real \<Rightarrow> real \<Rightarrow> v3" where
  "v3 nx ny nz = \<lparr> x = nx, y = ny, z = nz \<rparr>"

definition v3_add :: "v3 \<Rightarrow> v3 \<Rightarrow> v3" where
  "v3_add vl vr = v3
     (v3.x vl + v3.x vr)
     (v3.y vl + v3.y vr)
     (v3.z vl + v3.z vr)"

definition v3_sub :: "v3 \<Rightarrow> v3 \<Rightarrow> v3" where
  "v3_sub vl vr = v3
     (v3.x vl - v3.x vr)
     (v3.y vl - v3.y vr)
     (v3.z vl - v3.z vr)"

definition v3_scale :: "v3 \<Rightarrow> real \<Rightarrow> v3" where
  "v3_scale vl nr = v3
     (v3.x vl * nr)
     (v3.y vl * nr)
     (v3.z vl * nr)"

definition v3_len :: "v3 \<Rightarrow> real" where
  "v3_len v = sqrt (v3.x v * v3.x v + v3.y v * v3.y v + v3.z v * v3.z v)"

text \<open>
  \<open>v3_unit\<close> (lines 109-117) has no embedding. Its source text opens the call
  \<open>v3(\<close> on line 112 and never closes it: line 116, where the \<open>);\<close> of every
  sibling function stands, is blank, and line 117 closes the function body. The text is
  not a function, so there is nothing it computes. The other functions are embedded
  from their own texts, each of which is well formed.
\<close>

definition v3_dot :: "v3 \<Rightarrow> v3 \<Rightarrow> real" where
  "v3_dot vl vr = v3.x vl * v3.x vr + v3.y vl * v3.y vr + v3.z vl * v3.z vr"

text \<open>The first declaration of \<open>v3_cross\<close> (lines 140-147).\<close>

definition v3_cross :: "v3 \<Rightarrow> v3 \<Rightarrow> v3" where
  "v3_cross vl vr = v3
     (v3.y vl * v3.z vr - v3.z vl * v3.y vr)
     (v3.z vl * v3.x vr - v3.x vl * v3.z vr)
     (v3.x vl * v3.y vr - v3.y vl * v3.x vr)"

subsection \<open>Matrices\<close>

text \<open>
  The object \<open>{x, y, z}\<close> of three row vectors built by \<open>m3x3\<close> (lines 164-171).
  The source's \<open>m.y.z\<close>, the \<open>z\<close> of the row \<open>y\<close>, is written \<open>v3.z (m3x3.y m)\<close>.
\<close>

record m3x3 =
  x :: v3
  y :: v3
  z :: v3

definition m3x3 ::
  "real \<Rightarrow> real \<Rightarrow> real \<Rightarrow> real \<Rightarrow> real \<Rightarrow> real \<Rightarrow> real \<Rightarrow> real \<Rightarrow> real \<Rightarrow> m3x3" where
  "m3x3 nxx nxy nxz nyx nyy nyz nzx nzy nzz =
     \<lparr> m3x3.x = v3 nxx nxy nxz,
       m3x3.y = v3 nyx nyy nyz,
       m3x3.z = v3 nzx nzy nzz \<rparr>"

definition m3x3_identity :: m3x3 where
  "m3x3_identity = m3x3
     1 0 0
     0 1 0
     0 0 1"

definition m3x3_transp :: "m3x3 \<Rightarrow> m3x3" where
  "m3x3_transp m = m3x3
     (v3.x (m3x3.x m)) (v3.x (m3x3.y m)) (v3.x (m3x3.z m))
     (v3.y (m3x3.x m)) (v3.y (m3x3.y m)) (v3.y (m3x3.z m))
     (v3.z (m3x3.x m)) (v3.z (m3x3.y m)) (v3.z (m3x3.z m))"

definition m3x3_euler :: "real \<Rightarrow> real \<Rightarrow> real \<Rightarrow> m3x3" where
  "m3x3_euler nhead npitch nroll =
     (let SINH = sin nhead;
          SINP = sin npitch;
          SINR = sin nroll;
          COSH = cos nhead;
          COSP = cos npitch;
          COSR = cos nroll
      in m3x3
        ((COSR*COSH) - (SINR*SINP*SINH)) (- SINR*COSP) ((COSR*SINH) + (SINR*SINP*COSH))
        ((SINR*COSH) + (COSR*SINP*SINH)) (COSR*COSP)   ((SINR*SINH) - (COSR*SINP*COSH))
        (- COSP*SINH)                    SINP          (COSP*COSH))"

text \<open>
  The second declaration of \<open>v3_cross\<close> (lines 246-253, under the doc comment of the
  inversion). A later function declaration of the same name replaces the earlier one,
  so this is the function a call of \<open>v3_cross\<close> reaches.
\<close>

definition v3_cross_dup :: "v3 \<Rightarrow> v3 \<Rightarrow> v3" where
  "v3_cross_dup vl vr = v3
     (v3.y vl * v3.z vr - v3.z vl * v3.y vr)
     (v3.z vl * v3.x vr - v3.x vl * v3.z vr)
     (v3.x vl * v3.y vr - v3.y vl * v3.x vr)"

text \<open>The local variable \<open>det\<close> of \<open>m3x3_inv\<close> (lines 256-259).\<close>

definition m3x3_det :: "m3x3 \<Rightarrow> real" where
  "m3x3_det m =
     v3.x (m3x3.x m) * (v3.y (m3x3.y m) * v3.z (m3x3.z m) - v3.y (m3x3.z m) * v3.z (m3x3.y m)) -
     v3.y (m3x3.x m) * (v3.x (m3x3.y m) * v3.z (m3x3.z m) - v3.z (m3x3.y m) * v3.x (m3x3.z m)) +
     v3.z (m3x3.x m) * (v3.x (m3x3.y m) * v3.y (m3x3.z m) - v3.y (m3x3.y m) * v3.x (m3x3.z m))"

definition m3x3_inv :: "m3x3 \<Rightarrow> m3x3" where
  "m3x3_inv m =
     (let det = m3x3_det m in
      if det = 0 then m3x3_identity
      else
        (let invdet = 1 / det in
         m3x3
           ((v3.y (m3x3.y m) * v3.z (m3x3.z m) - v3.y (m3x3.z m) * v3.z (m3x3.y m)) * invdet)
           ((v3.z (m3x3.x m) * v3.y (m3x3.z m) - v3.y (m3x3.x m) * v3.z (m3x3.z m)) * invdet)
           ((v3.y (m3x3.x m) * v3.z (m3x3.y m) - v3.z (m3x3.x m) * v3.y (m3x3.y m)) * invdet)
           ((v3.z (m3x3.y m) * v3.x (m3x3.z m) - v3.x (m3x3.y m) * v3.z (m3x3.z m)) * invdet)
           ((v3.x (m3x3.x m) * v3.z (m3x3.z m) - v3.z (m3x3.x m) * v3.x (m3x3.z m)) * invdet)
           ((v3.x (m3x3.y m) * v3.z (m3x3.x m) - v3.x (m3x3.x m) * v3.z (m3x3.y m)) * invdet)
           ((v3.x (m3x3.y m) * v3.y (m3x3.z m) - v3.x (m3x3.z m) * v3.y (m3x3.y m)) * invdet)
           ((v3.x (m3x3.z m) * v3.y (m3x3.x m) - v3.x (m3x3.x m) * v3.y (m3x3.z m)) * invdet)
           ((v3.x (m3x3.x m) * v3.y (m3x3.y m) - v3.x (m3x3.y m) * v3.y (m3x3.x m)) * invdet)))"

definition m3x3_mul :: "m3x3 \<Rightarrow> m3x3 \<Rightarrow> m3x3" where
  "m3x3_mul ml mr =
     (let mtr = m3x3_transp mr in
      m3x3
        (v3_dot (m3x3.x ml) (m3x3.x mtr)) (v3_dot (m3x3.x ml) (m3x3.y mtr)) (v3_dot (m3x3.x ml) (m3x3.z mtr))
        (v3_dot (m3x3.y ml) (m3x3.x mtr)) (v3_dot (m3x3.y ml) (m3x3.y mtr)) (v3_dot (m3x3.y ml) (m3x3.z mtr))
        (v3_dot (m3x3.z ml) (m3x3.x mtr)) (v3_dot (m3x3.z ml) (m3x3.y mtr)) (v3_dot (m3x3.z ml) (m3x3.z mtr)))"

definition v3_m3x3_mul :: "v3 \<Rightarrow> m3x3 \<Rightarrow> v3" where
  "v3_m3x3_mul vl mr = v3
     (v3_dot vl (m3x3.x mr))
     (v3_dot vl (m3x3.y mr))
     (v3_dot vl (m3x3.z mr))"

section \<open>Helper facts\<close>

lemma v3_len_nonneg: "0 \<le> v3_len v"
  by (simp add: v3_len_def)

lemma v3_len_scale: "v3_len (v3_scale v s) = \<bar>s\<bar> * v3_len v"
proof -
  have "v3.x v * s * (v3.x v * s) + v3.y v * s * (v3.y v * s) + v3.z v * s * (v3.z v * s)
      = s\<^sup>2 * (v3.x v * v3.x v + v3.y v * v3.y v + v3.z v * v3.z v)"
    by (simp add: power2_eq_square algebra_simps)
  then show ?thesis
    by (simp add: v3_len_def v3_scale_def v3_def real_sqrt_mult)
qed

text \<open>
  The nine dot products of the rows of the adjugate, scaled by \<open>k\<close>, with the columns of
  the matrix \<open>((a, b, c), (d, e, f), (g, h, i))\<close>, when \<open>k\<close> inverts the determinant.
\<close>

lemma adjugate_rows:
  fixes a b c d e f g h i k :: real
  assumes k: "(a * (e * i - h * f) - b * (d * i - f * g) + c * (d * h - e * g)) * k = 1"
  shows "(e * i - h * f) * k * a + (c * h - b * i) * k * d + (b * f - c * e) * k * g = 1"
    and "(e * i - h * f) * k * b + (c * h - b * i) * k * e + (b * f - c * e) * k * h = 0"
    and "(e * i - h * f) * k * c + (c * h - b * i) * k * f + (b * f - c * e) * k * i = 0"
    and "(f * g - d * i) * k * a + (a * i - c * g) * k * d + (d * c - a * f) * k * g = 0"
    and "(f * g - d * i) * k * b + (a * i - c * g) * k * e + (d * c - a * f) * k * h = 1"
    and "(f * g - d * i) * k * c + (a * i - c * g) * k * f + (d * c - a * f) * k * i = 0"
    and "(d * h - g * e) * k * a + (g * b - a * h) * k * d + (a * e - d * b) * k * g = 0"
    and "(d * h - g * e) * k * b + (g * b - a * h) * k * e + (a * e - d * b) * k * h = 0"
    and "(d * h - g * e) * k * c + (g * b - a * h) * k * f + (a * e - d * b) * k * i = 1"
proof -
  let ?D = "a * (e * i - h * f) - b * (d * i - f * g) + c * (d * h - e * g)"
  have "(e * i - h * f) * k * a + (c * h - b * i) * k * d + (b * f - c * e) * k * g = ?D * k"
    by (simp add: algebra_simps)
  then show "(e * i - h * f) * k * a + (c * h - b * i) * k * d + (b * f - c * e) * k * g = 1"
    using k by simp
  have "(f * g - d * i) * k * b + (a * i - c * g) * k * e + (d * c - a * f) * k * h = ?D * k"
    by (simp add: algebra_simps)
  then show "(f * g - d * i) * k * b + (a * i - c * g) * k * e + (d * c - a * f) * k * h = 1"
    using k by simp
  have "(d * h - g * e) * k * c + (g * b - a * h) * k * f + (a * e - d * b) * k * i = ?D * k"
    by (simp add: algebra_simps)
  then show "(d * h - g * e) * k * c + (g * b - a * h) * k * f + (a * e - d * b) * k * i = 1"
    using k by simp
qed (simp_all add: algebra_simps)

lemma mul_scaled_adjugate:
  assumes k: "m3x3_det m * k = 1"
  shows "m3x3_mul
     (m3x3
        ((v3.y (m3x3.y m) * v3.z (m3x3.z m) - v3.y (m3x3.z m) * v3.z (m3x3.y m)) * k)
        ((v3.z (m3x3.x m) * v3.y (m3x3.z m) - v3.y (m3x3.x m) * v3.z (m3x3.z m)) * k)
        ((v3.y (m3x3.x m) * v3.z (m3x3.y m) - v3.z (m3x3.x m) * v3.y (m3x3.y m)) * k)
        ((v3.z (m3x3.y m) * v3.x (m3x3.z m) - v3.x (m3x3.y m) * v3.z (m3x3.z m)) * k)
        ((v3.x (m3x3.x m) * v3.z (m3x3.z m) - v3.z (m3x3.x m) * v3.x (m3x3.z m)) * k)
        ((v3.x (m3x3.y m) * v3.z (m3x3.x m) - v3.x (m3x3.x m) * v3.z (m3x3.y m)) * k)
        ((v3.x (m3x3.y m) * v3.y (m3x3.z m) - v3.x (m3x3.z m) * v3.y (m3x3.y m)) * k)
        ((v3.x (m3x3.z m) * v3.y (m3x3.x m) - v3.x (m3x3.x m) * v3.y (m3x3.z m)) * k)
        ((v3.x (m3x3.x m) * v3.y (m3x3.y m) - v3.x (m3x3.y m) * v3.y (m3x3.x m)) * k))
     m = m3x3_identity"
  by (simp add: m3x3_mul_def m3x3_transp_def m3x3_identity_def Let_def
        m3x3_def v3_dot_def v3_def adjugate_rows [OF k [unfolded m3x3_det_def]])

lemma m3x3_inv_nonsingular:
  assumes "m3x3_det m \<noteq> 0"
  shows "m3x3_mul (m3x3_inv m) m = m3x3_identity"
proof -
  have k: "m3x3_det m * (1 / m3x3_det m) = 1"
    using assms by simp
  show ?thesis
    unfolding m3x3_inv_def Let_def if_not_P [OF assms]
    by (rule mul_scaled_adjugate [OF k])
qed

text \<open>The same for the rows of the matrix and the columns of the scaled adjugate.\<close>

lemma adjugate_columns:
  fixes a b c d e f g h i k :: real
  assumes k: "(a * (e * i - h * f) - b * (d * i - f * g) + c * (d * h - e * g)) * k = 1"
  shows "a * ((e * i - h * f) * k) + b * ((f * g - d * i) * k) + c * ((d * h - g * e) * k) = 1"
    and "a * ((c * h - b * i) * k) + b * ((a * i - c * g) * k) + c * ((g * b - a * h) * k) = 0"
    and "a * ((b * f - c * e) * k) + b * ((d * c - a * f) * k) + c * ((a * e - d * b) * k) = 0"
    and "d * ((e * i - h * f) * k) + e * ((f * g - d * i) * k) + f * ((d * h - g * e) * k) = 0"
    and "d * ((c * h - b * i) * k) + e * ((a * i - c * g) * k) + f * ((g * b - a * h) * k) = 1"
    and "d * ((b * f - c * e) * k) + e * ((d * c - a * f) * k) + f * ((a * e - d * b) * k) = 0"
    and "g * ((e * i - h * f) * k) + h * ((f * g - d * i) * k) + i * ((d * h - g * e) * k) = 0"
    and "g * ((c * h - b * i) * k) + h * ((a * i - c * g) * k) + i * ((g * b - a * h) * k) = 0"
    and "g * ((b * f - c * e) * k) + h * ((d * c - a * f) * k) + i * ((a * e - d * b) * k) = 1"
proof -
  let ?D = "a * (e * i - h * f) - b * (d * i - f * g) + c * (d * h - e * g)"
  have "a * ((e * i - h * f) * k) + b * ((f * g - d * i) * k) + c * ((d * h - g * e) * k) = ?D * k"
    by (simp add: algebra_simps)
  then show "a * ((e * i - h * f) * k) + b * ((f * g - d * i) * k) + c * ((d * h - g * e) * k) = 1"
    using k by simp
  have "d * ((c * h - b * i) * k) + e * ((a * i - c * g) * k) + f * ((g * b - a * h) * k) = ?D * k"
    by (simp add: algebra_simps)
  then show "d * ((c * h - b * i) * k) + e * ((a * i - c * g) * k) + f * ((g * b - a * h) * k) = 1"
    using k by simp
  have "g * ((b * f - c * e) * k) + h * ((d * c - a * f) * k) + i * ((a * e - d * b) * k) = ?D * k"
    by (simp add: algebra_simps)
  then show "g * ((b * f - c * e) * k) + h * ((d * c - a * f) * k) + i * ((a * e - d * b) * k) = 1"
    using k by simp
qed (simp_all add: algebra_simps)

lemma mul_scaled_adjugate_right:
  assumes k: "m3x3_det m * k = 1"
  shows "m3x3_mul m
     (m3x3
        ((v3.y (m3x3.y m) * v3.z (m3x3.z m) - v3.y (m3x3.z m) * v3.z (m3x3.y m)) * k)
        ((v3.z (m3x3.x m) * v3.y (m3x3.z m) - v3.y (m3x3.x m) * v3.z (m3x3.z m)) * k)
        ((v3.y (m3x3.x m) * v3.z (m3x3.y m) - v3.z (m3x3.x m) * v3.y (m3x3.y m)) * k)
        ((v3.z (m3x3.y m) * v3.x (m3x3.z m) - v3.x (m3x3.y m) * v3.z (m3x3.z m)) * k)
        ((v3.x (m3x3.x m) * v3.z (m3x3.z m) - v3.z (m3x3.x m) * v3.x (m3x3.z m)) * k)
        ((v3.x (m3x3.y m) * v3.z (m3x3.x m) - v3.x (m3x3.x m) * v3.z (m3x3.y m)) * k)
        ((v3.x (m3x3.y m) * v3.y (m3x3.z m) - v3.x (m3x3.z m) * v3.y (m3x3.y m)) * k)
        ((v3.x (m3x3.z m) * v3.y (m3x3.x m) - v3.x (m3x3.x m) * v3.y (m3x3.z m)) * k)
        ((v3.x (m3x3.x m) * v3.y (m3x3.y m) - v3.x (m3x3.y m) * v3.y (m3x3.x m)) * k))
     = m3x3_identity"
  by (simp add: m3x3_mul_def m3x3_transp_def m3x3_identity_def Let_def
        m3x3_def v3_dot_def v3_def adjugate_columns [OF k [unfolded m3x3_det_def]])

lemma sum_of_squares_zero:
  fixes a b c :: real
  shows "a * a + b * b + c * c = 0 \<longleftrightarrow> a = 0 \<and> b = 0 \<and> c = 0"
proof
  assume s: "a * a + b * b + c * c = 0"
  have "0 \<le> a * a" "0 \<le> b * b" "0 \<le> c * c"
    by simp_all
  with s have "a * a = 0" "b * b = 0" "c * c = 0"
    by linarith+
  then show "a = 0 \<and> b = 0 \<and> c = 0"
    by simp
qed simp

text \<open>An Euler matrix is a rotation: its determinant is 1 for all angles.\<close>

lemma m3x3_det_euler: "m3x3_det (m3x3_euler nhead npitch nroll) = 1"
proof -
  have "(cos nroll * cos nhead - sin nroll * sin npitch * sin nhead) *
          (cos nroll * cos npitch * (cos npitch * cos nhead) -
           sin npitch * (sin nroll * sin nhead - cos nroll * sin npitch * cos nhead)) -
        - sin nroll * cos npitch *
          ((sin nroll * cos nhead + cos nroll * sin npitch * sin nhead) * (cos npitch * cos nhead) -
           (sin nroll * sin nhead - cos nroll * sin npitch * cos nhead) * (- cos npitch * sin nhead)) +
        (cos nroll * sin nhead + sin nroll * sin npitch * cos nhead) *
          ((sin nroll * cos nhead + cos nroll * sin npitch * sin nhead) * sin npitch -
           cos nroll * cos npitch * (- cos npitch * sin nhead)) = 1"
    using sin_cos_squared_add [of nhead] sin_cos_squared_add [of npitch]
      sin_cos_squared_add [of nroll]
    by algebra
  then show ?thesis
    by (simp add: m3x3_det_def m3x3_euler_def m3x3_def v3_def Let_def)
qed

section \<open>Properties\<close>

subsection \<open>Inversion\<close>

text \<open>
  C1. For every matrix \<open>m\<close> whose determinant, the cofactor expansion along the first
  row that \<open>m3x3_inv\<close> computes, is not zero, the product of \<open>m3x3_inv m\<close> and \<open>m\<close>
  is the identity matrix, entry for entry in exact arithmetic. In particular this holds
  for the Euler matrix of the angles 0.3, 0.1 and -0.2.
\<close>

theorem m3x3_inv_left_inverse:
  "(m3x3_det m \<noteq> 0 \<longrightarrow> m3x3_mul (m3x3_inv m) m = m3x3_identity) \<and>
   m3x3_mul (m3x3_inv (m3x3_euler 0.3 0.1 (- 0.2))) (m3x3_euler 0.3 0.1 (- 0.2)) = m3x3_identity"
proof (intro conjI impI)
  assume "m3x3_det m \<noteq> 0"
  then show "m3x3_mul (m3x3_inv m) m = m3x3_identity"
    by (rule m3x3_inv_nonsingular)
next
  have "m3x3_det (m3x3_euler 0.3 0.1 (- 0.2)) \<noteq> 0"
    by (simp add: m3x3_det_euler)
  then show "m3x3_mul (m3x3_inv (m3x3_euler 0.3 0.1 (- 0.2))) (m3x3_euler 0.3 0.1 (- 0.2))
      = m3x3_identity"
    by (rule m3x3_inv_nonsingular)
qed

text \<open>
  The matrix \<open>((1, 2, 3), (0, 1, 4), (5, 6, 0))\<close> has determinant 1; its inverse as
  \<open>m3x3_inv\<close> computes it, and the product with the matrix.
\<close>

theorem m3x3_inv_left_inverse_witness:
  "m3x3_det (m3x3 1 2 3 0 1 4 5 6 0) \<noteq> 0 \<and>
   m3x3_inv (m3x3 1 2 3 0 1 4 5 6 0) = m3x3 (- 24) 18 5 20 (- 15) (- 4) (- 5) 4 1 \<and>
   m3x3_mul (m3x3_inv (m3x3 1 2 3 0 1 4 5 6 0)) (m3x3 1 2 3 0 1 4 5 6 0) = m3x3_identity"
proof -
  have d: "m3x3_det (m3x3 1 2 3 0 1 4 5 6 0) = 1"
    by (simp add: m3x3_det_def m3x3_def v3_def)
  have i: "m3x3_inv (m3x3 1 2 3 0 1 4 5 6 0) = m3x3 (- 24) 18 5 20 (- 15) (- 4) (- 5) 4 1"
    by (simp add: m3x3_inv_def d) (simp add: m3x3_def v3_def)
  from d i m3x3_inv_left_inverse [of "m3x3 1 2 3 0 1 4 5 6 0"] show ?thesis
    by simp
qed

text \<open>
  C5. For every matrix whose determinant is exactly zero, \<open>m3x3_inv\<close> returns the
  identity matrix (a value, not an error); in particular for the matrix of nine zeros.
\<close>

theorem m3x3_inv_singular:
  "(m3x3_det m = 0 \<longrightarrow> m3x3_inv m = m3x3_identity) \<and>
   m3x3_inv (m3x3 0 0 0 0 0 0 0 0 0) = m3x3_identity"
  by (simp add: m3x3_inv_def m3x3_det_def m3x3_def v3_def)

text \<open>The matrix \<open>((1, 2, 3), (2, 4, 6), (7, 8, 9))\<close> is singular and not zero.\<close>

theorem m3x3_inv_singular_witness:
  "m3x3_det (m3x3 1 2 3 2 4 6 7 8 9) = 0 \<and>
   m3x3_inv (m3x3 1 2 3 2 4 6 7 8 9) = m3x3_identity"
proof -
  have d: "m3x3_det (m3x3 1 2 3 2 4 6 7 8 9) = 0"
    by (simp add: m3x3_det_def m3x3_def v3_def)
  with m3x3_inv_singular [of "m3x3 1 2 3 2 4 6 7 8 9"] show ?thesis
    by simp
qed

subsection \<open>Transforming a vector\<close>

text \<open>
  C2, as the program has it. \<open>v3_m3x3_mul\<close> returns the three dot products of the
  vector with the rows of the matrix; it maps \<open>(1, 0, 0)\<close> to itself under the identity
  matrix, and to \<open>(0, 0, -1)\<close> under the Euler matrix of head \<open>\<pi>/2\<close>, pitch 0, roll 0.
\<close>

theorem v3_m3x3_mul_euler_head:
  "v3_m3x3_mul vl mr = v3 (v3_dot vl (m3x3.x mr)) (v3_dot vl (m3x3.y mr)) (v3_dot vl (m3x3.z mr)) \<and>
   v3_m3x3_mul (v3 1 0 0) m3x3_identity = v3 1 0 0 \<and>
   v3_m3x3_mul (v3 1 0 0) (m3x3_euler (pi / 2) 0 0) = v3 0 0 (- 1)"
  by (simp add: v3_m3x3_mul_def m3x3_euler_def m3x3_identity_def m3x3_def v3_dot_def v3_def)

text \<open>
  C2, as stated: the result for the Euler matrix of head \<open>\<pi>/2\<close> is not \<open>(0, -1, 0)\<close>.
  It lies at distance \<open>\<surd>2\<close> from that vector, beyond any rounding tolerance.
\<close>

theorem v3_m3x3_mul_euler_head_counterexample:
  "v3_m3x3_mul (v3 1 0 0) (m3x3_euler (pi / 2) 0 0) \<noteq> v3 0 (- 1) 0 \<and>
   v3_len (v3_sub (v3_m3x3_mul (v3 1 0 0) (m3x3_euler (pi / 2) 0 0)) (v3 0 (- 1) 0)) = sqrt 2"
  by (simp add: v3_m3x3_mul_def m3x3_euler_def m3x3_def v3_dot_def v3_len_def v3_sub_def v3_def)

subsection \<open>The Euler matrix\<close>

text \<open>
  C4. For all angles the matrix of \<open>m3x3_euler\<close> has the entries of the fixed formula,
  written with the sines and cosines of head, pitch and roll:
  row 0 is \<open>(cosR cosH - sinR sinP sinH, -(sinR cosP), cosR sinH + sinR sinP cosH)\<close>,
  row 1 is \<open>(sinR cosH + cosR sinP sinH, cosR cosP, sinR sinH - cosR sinP cosH)\<close>,
  row 2 is \<open>(-(cosP sinH), sinP, cosP cosH)\<close>; and the matrix of the angles 0, 0, 0 is
  the identity matrix.
\<close>

theorem m3x3_euler_formula:
  "m3x3_euler head pitch roll = m3x3
     (cos roll * cos head - sin roll * sin pitch * sin head)
     (- (sin roll * cos pitch))
     (cos roll * sin head + sin roll * sin pitch * cos head)
     (sin roll * cos head + cos roll * sin pitch * sin head)
     (cos roll * cos pitch)
     (sin roll * sin head - cos roll * sin pitch * cos head)
     (- (cos pitch * sin head))
     (sin pitch)
     (cos pitch * cos head) \<and>
   m3x3_euler 0 0 0 = m3x3_identity"
  by (simp add: m3x3_euler_def m3x3_identity_def Let_def)

subsection \<open>The cross product\<close>

text \<open>
  C7. For all vectors \<open>l\<close> and \<open>r\<close>, the cross product of \<open>l\<close> and \<open>r\<close> is the cross
  product of \<open>r\<close> and \<open>l\<close> scaled by -1, and its dot products with \<open>l\<close> and with \<open>r\<close>
  are both zero; the cross product of \<open>(1, 0, 0)\<close> and \<open>(0, 1, 0)\<close> is \<open>(0, 0, 1)\<close>, and
  in the other order it is \<open>(0, 0, -1)\<close>.
\<close>

theorem v3_cross_anticommutative_orthogonal:
  "v3_cross l r = v3_scale (v3_cross r l) (- 1) \<and>
   v3_dot (v3_cross l r) l = 0 \<and>
   v3_dot (v3_cross l r) r = 0 \<and>
   v3_cross (v3 1 0 0) (v3 0 1 0) = v3 0 0 1 \<and>
   v3_cross (v3 0 1 0) (v3 1 0 0) = v3 0 0 (- 1)"
  by (simp add: v3_cross_def v3_scale_def v3_dot_def v3_def algebra_simps)

subsection \<open>The two declarations of the cross product\<close>

text \<open>
  C9. The cross product declared at lines 140-147 and the one declared again at lines
  246-253 return the same vector for all arguments: they are one function.
\<close>

theorem v3_cross_declarations_agree: "v3_cross_dup = v3_cross"
  by (intro ext) (simp add: v3_cross_dup_def v3_cross_def)

subsection \<open>Multiplication\<close>

text \<open>
  C8. For every matrix \<open>M\<close>, the product of the identity matrix and \<open>M\<close> is \<open>M\<close>, and
  the product of \<open>M\<close> and the identity matrix is \<open>M\<close>.
\<close>

theorem m3x3_mul_identity:
  "m3x3_mul m3x3_identity M = M \<and> m3x3_mul M m3x3_identity = M"
  by (simp add: m3x3_mul_def m3x3_identity_def m3x3_transp_def m3x3_def v3_dot_def v3_def)

text \<open>
  C10. For all matrices \<open>l\<close> and \<open>r\<close>, each of the three rows of \<open>m3x3_mul l r\<close> is the
  same row of \<open>l\<close> transformed, by \<open>v3_m3x3_mul\<close>, with the transpose of \<open>r\<close>.
\<close>

theorem m3x3_mul_rows:
  "m3x3.x (m3x3_mul l r) = v3_m3x3_mul (m3x3.x l) (m3x3_transp r) \<and>
   m3x3.y (m3x3_mul l r) = v3_m3x3_mul (m3x3.y l) (m3x3_transp r) \<and>
   m3x3.z (m3x3_mul l r) = v3_m3x3_mul (m3x3.z l) (m3x3_transp r)"
  by (simp add: m3x3_mul_def v3_m3x3_mul_def m3x3_def Let_def)

section \<open>Further properties of the library\<close>

text \<open>Transposing twice gives the matrix back.\<close>

theorem m3x3_transp_involution: "m3x3_transp (m3x3_transp m) = m"
  by (simp add: m3x3_transp_def m3x3_def v3_def)

text \<open>
  The doc comment of the inversion states \<open>m*inv(m)=identity\<close>: for a matrix whose
  determinant is not zero, the product of \<open>m\<close> and \<open>m3x3_inv m\<close>, in this order, is the
  identity matrix as well.
\<close>

theorem m3x3_inv_right_inverse:
  "m3x3_det m \<noteq> 0 \<longrightarrow> m3x3_mul m (m3x3_inv m) = m3x3_identity"
proof
  assume d: "m3x3_det m \<noteq> 0"
  then have k: "m3x3_det m * (1 / m3x3_det m) = 1"
    by simp
  show "m3x3_mul m (m3x3_inv m) = m3x3_identity"
    unfolding m3x3_inv_def Let_def if_not_P [OF d]
    by (rule mul_scaled_adjugate_right [OF k])
qed

theorem m3x3_inv_right_inverse_witness:
  "m3x3_det (m3x3 2 0 1 1 3 0 0 1 1) \<noteq> 0 \<and>
   m3x3_mul (m3x3 2 0 1 1 3 0 0 1 1) (m3x3_inv (m3x3 2 0 1 1 3 0 0 1 1)) = m3x3_identity"
proof -
  have d: "m3x3_det (m3x3 2 0 1 1 3 0 0 1 1) = 7"
    by (simp add: m3x3_det_def m3x3_def v3_def)
  with m3x3_inv_right_inverse [of "m3x3 2 0 1 1 3 0 0 1 1"] show ?thesis
    by simp
qed

text \<open>
  Adding the zero vector changes nothing, subtraction undoes addition, and
  \<open>(1, 2, 3) + (4, 5, 6) = (5, 7, 9)\<close>.
\<close>

theorem v3_add_sub:
  "v3_add v (v3 0 0 0) = v \<and>
   v3_sub (v3_add v w) w = v \<and>
   v3_add (v3 1 2 3) (v3 4 5 6) = v3 5 7 9"
  by (simp add: v3_add_def v3_sub_def v3_def)

text \<open>
  The length is the square root of the dot product of the vector with itself; it is
  never negative, it is zero for the zero vector only, and scaling a vector scales its
  length by the absolute value of the factor.
\<close>

theorem v3_len_norm:
  "v3_len v = sqrt (v3_dot v v) \<and>
   0 \<le> v3_len v \<and>
   (v3_len v = 0 \<longleftrightarrow> v = v3 0 0 0) \<and>
   v3_len (v3_scale v s) = \<bar>s\<bar> * v3_len v"
proof (intro conjI)
  show "v3_len v = sqrt (v3_dot v v)"
    by (simp add: v3_len_def v3_dot_def)
  show "0 \<le> v3_len v"
    by (rule v3_len_nonneg)
  show "v3_len v = 0 \<longleftrightarrow> v = v3 0 0 0"
    by (auto simp add: v3_len_def v3_def sum_of_squares_zero)
  show "v3_len (v3_scale v s) = \<bar>s\<bar> * v3_len v"
    by (rule v3_len_scale)
qed

text \<open>
  Every Euler matrix is a rotation: its determinant is 1 and its product with its own
  transpose is the identity matrix. The inversion therefore never takes its fallback
  for an Euler matrix.
\<close>

theorem m3x3_euler_rotation:
  "m3x3_det (m3x3_euler nhead npitch nroll) = 1 \<and>
   m3x3_mul (m3x3_euler nhead npitch nroll) (m3x3_transp (m3x3_euler nhead npitch nroll))
     = m3x3_identity"
proof
  show "m3x3_det (m3x3_euler nhead npitch nroll) = 1"
    by (rule m3x3_det_euler)
next
  show "m3x3_mul (m3x3_euler nhead npitch nroll) (m3x3_transp (m3x3_euler nhead npitch nroll))
      = m3x3_identity"
    apply (simp add: m3x3_mul_def m3x3_transp_def m3x3_euler_def m3x3_identity_def
        m3x3_def v3_dot_def v3_def Let_def)
    apply (intro conjI)
    using sin_cos_squared_add [of nhead] sin_cos_squared_add [of npitch]
      sin_cos_squared_add [of nroll]
            apply algebra+
    done
qed

text \<open>
  Multiplication is associative and the determinant of a product is the product of the
  determinants, but multiplication is not commutative.
\<close>

theorem m3x3_mul_assoc_det:
  "m3x3_mul (m3x3_mul a b) c = m3x3_mul a (m3x3_mul b c) \<and>
   m3x3_det (m3x3_mul a b) = m3x3_det a * m3x3_det b"
  by (simp add: m3x3_det_def m3x3_mul_def m3x3_transp_def m3x3_def v3_dot_def v3_def
      Let_def algebra_simps)

theorem m3x3_mul_not_commutative:
  "m3x3_mul (m3x3 0 1 0 0 0 0 0 0 0) (m3x3 0 0 0 1 0 0 0 0 0) \<noteq>
   m3x3_mul (m3x3 0 0 0 1 0 0 0 0 0) (m3x3 0 1 0 0 0 0 0 0 0)"
  by (simp add: m3x3_mul_def m3x3_transp_def m3x3_def v3_dot_def v3_def Let_def)

end
